theory Spec2Isabelle
  imports Complex_Main "HOL-Library.AList"
begin

section \<open>Python values used by \<open>oscar/models/fields/decimal.py\<close>\<close>

text \<open>
  A \<open>decimal.Decimal\<close> is a sign, a coefficient and an exponent, or one of the special
  values. Python keeps the coefficient as a digit string without leading zeros
  (\<open>'0'\<close> for zero), which is the decimal numeral of a natural number; the payload
  of a NaN is a digit string that may be empty.
\<close>

datatype decimal =
    Finite bool nat int
  | Infinity bool
  | NaN bool "nat list"
  | sNaN bool "nat list"

text \<open>
  The values the module meets. A \<open>float\<close> is carried as the rational number it
  denotes (infinite and NaN floats are left out). \<open>PyObject\<close> stands for any other
  object, named by a tag; it is not a number and it is truthy.
\<close>

datatype pyvalue =
    PyNone
  | PyBool bool
  | PyInt int
  | PyFloat rat
  | PyStr string
  | PyDecimal decimal
  | PyObject string

text \<open>
  The exceptions. The three formatting errors are \<open>ValueError\<close>s whose message ends
  with \<open>%r\<close> of the argument as it was passed in, so the message is carried as its
  fixed text (the constructor) and that argument. \<open>InvalidOperation\<close>,
  \<open>DivisionByZero\<close> and \<open>Overflow\<close> are the exceptions of the \<open>decimal\<close> module,
  \<open>ValidationError\<close> is the framework's, \<open>AttributeError\<close> is what reading
  an attribute that an object does not have raises.
\<close>

datatype message =
    Exponent_too_large decimal
  | Exponent_too_small decimal
  | Too_many_digits decimal
  | Unique_flag_not_set

datatype error =
    ValueError message
  | TypeError
  | AssertionError
  | InvalidOperation
  | DivisionByZero
  | Overflow
  | ValidationError
  | AttributeError

text \<open>Truth value testing, as \<open>bool(x)\<close>, \<open>if x\<close> and \<open>x or y\<close> do it.\<close>

definition truthy :: "pyvalue \<Rightarrow> bool" where
  "truthy v =
     (case v of
        PyNone \<Rightarrow> False
      | PyBool b \<Rightarrow> b
      | PyInt n \<Rightarrow> n \<noteq> 0
      | PyFloat r \<Rightarrow> r \<noteq> 0
      | PyStr s \<Rightarrow> s \<noteq> []
      | PyDecimal d \<Rightarrow> (case d of Finite s c e \<Rightarrow> c \<noteq> 0 | _ \<Rightarrow> True)
      | PyObject tag \<Rightarrow> True)"

text \<open>\<open>isinstance(v, numbers.Number)\<close>: \<open>bool\<close> is a subclass of \<open>int\<close>.\<close>

definition isinstance_Number :: "pyvalue \<Rightarrow> bool" where
  "isinstance_Number v =
     (case v of
        PyBool b \<Rightarrow> True
      | PyInt n \<Rightarrow> True
      | PyFloat r \<Rightarrow> True
      | PyDecimal d \<Rightarrow> True
      | _ \<Rightarrow> False)"

text \<open>
  Keyword arguments and other dictionaries with string keys, as lists of items in
  insertion order without repeated keys: \<open>k in d\<close> is \<open>map_of d k \<noteq> None\<close>,
  \<open>d.get(k, dflt)\<close> is \<open>get_kw\<close>, \<open>d[k] = v\<close> is \<open>AList.update\<close> and
  \<open>d.pop(k, None)\<close> is \<open>pop\<close>.
\<close>

type_synonym kwargs = "(string \<times> pyvalue) list"

definition get_kw :: "kwargs \<Rightarrow> string \<Rightarrow> pyvalue \<Rightarrow> pyvalue" where
  "get_kw kw k dflt = (case map_of kw k of None \<Rightarrow> dflt | Some v \<Rightarrow> v)"

definition setdefault :: "kwargs \<Rightarrow> string \<Rightarrow> pyvalue \<Rightarrow> kwargs" where
  "setdefault kw k v = (case map_of kw k of None \<Rightarrow> kw @ [(k, v)] | Some old \<Rightarrow> kw)"

definition pop :: "kwargs \<Rightarrow> string \<Rightarrow> kwargs" where
  "pop kw k = AList.delete k kw"

section \<open>The arithmetic context\<close>

text \<open>
  The module never changes the thread's arithmetic context, so
  \<open>decimal.getcontext()\<close> is the default one: \<open>prec=28\<close>,
  \<open>rounding=ROUND_HALF_EVEN\<close>, \<open>Emin=-999999\<close>, \<open>Emax=999999\<close>, \<open>clamp=0\<close>, with
  the traps \<open>InvalidOperation\<close>, \<open>DivisionByZero\<close> and \<open>Overflow\<close>: these three
  signals raise, every other signal only sets a flag.
\<close>

definition ctx_prec :: nat where
  "ctx_prec = 28"

definition Emax :: int where
  "Emax = 999999"

definition Emin :: int where
  "Emin = - 999999"

definition Etiny :: int where
  "Etiny = Emin - int ctx_prec + 1"

definition Etop :: int where
  "Etop = Emax - int ctx_prec + 1"

section \<open>Digits\<close>

fun digits_of :: "nat \<Rightarrow> nat list" where
  "digits_of n = (if n < 10 then [n] else digits_of (n div 10) @ [n mod 10])"

declare digits_of.simps [simp del]

definition nat_of_digits :: "nat list \<Rightarrow> nat" where
  "nat_of_digits ds = foldl (\<lambda>a d. 10 * a + d) 0 ds"

definition digit_char :: "nat \<Rightarrow> char" where
  "digit_char d = char_of (48 + d)"

definition digit_string :: "nat list \<Rightarrow> string" where
  "digit_string ds = map digit_char ds"

section \<open>\<open>Decimal._fix\<close> and \<open>Decimal.normalize\<close>\<close>

text \<open>
  \<open>_all_zeros(self._int, p)\<close> and \<open>_exact_half(self._int, p)\<close>: the digits from
  position \<open>p\<close> on are all zero, respectively a five followed by zeros only.
\<close>

definition all_zeros :: "nat list \<Rightarrow> nat \<Rightarrow> bool" where
  "all_zeros ds p = list_all (\<lambda>d. d = 0) (drop p ds)"

definition exact_half :: "nat list \<Rightarrow> nat \<Rightarrow> bool" where
  "exact_half ds p =
     (case drop p ds of [] \<Rightarrow> False | d # r \<Rightarrow> d = 5 \<and> list_all (\<lambda>x. x = 0) r)"

text \<open>
  The rounding functions answer 1 (round up), 0 (exact) or -1 (round down) for keeping
  the first \<open>p\<close> digits. \<open>_fix\<close> calls them with \<open>p\<close> below the number of digits,
  so the digit at position \<open>p\<close> exists.
\<close>

definition round_half_up :: "nat list \<Rightarrow> nat \<Rightarrow> int" where
  "round_half_up ds p =
     (if (case drop p ds of [] \<Rightarrow> False | d # r \<Rightarrow> 5 \<le> d) then 1
      else if all_zeros ds p then 0
      else - 1)"

definition round_half_even :: "nat list \<Rightarrow> nat \<Rightarrow> int" where
  "round_half_even ds p =
     (if exact_half ds p \<and> (p = 0 \<or> even (last (take p ds))) then - 1
      else round_half_up ds p)"

text \<open>\<open>_fix_nan\<close>: a payload longer than the precision loses its leading digits.\<close>

definition fix_payload :: "nat list \<Rightarrow> nat list" where
  "fix_payload p =
     (if length p > ctx_prec
      then dropWhile (\<lambda>d. d = 0) (drop (length p - ctx_prec) p)
      else p)"

text \<open>
  \<open>_fix\<close>: round the value to the context. A zero has its exponent clamped; a value
  whose adjusted exponent is above \<open>Emax\<close> signals \<open>Overflow\<close>, which is trapped; a
  value with more digits than the precision (or below \<open>Etiny\<close>) is rounded half-even.
\<close>

definition dec_fix :: "decimal \<Rightarrow> error + decimal" where
  "dec_fix d =
     (case d of
        Infinity s \<Rightarrow> Inr d
      | NaN s p \<Rightarrow> Inr (NaN s (fix_payload p))
      | sNaN s p \<Rightarrow> Inr (sNaN s (fix_payload p))
      | Finite s c e \<Rightarrow>
          if c = 0 then Inr (Finite s 0 (min (max e Etiny) Emax))
          else
            let len = int (length (digits_of c));
                exp_min0 = len + e - int ctx_prec
            in if exp_min0 > Etop then Inl Overflow
               else
                 let exp_min = (if exp_min0 < Etiny then Etiny else exp_min0)
                 in if e < exp_min then
                      let digits0 = len + e - exp_min;
                          ds = (if digits0 < 0 then [1] else digits_of c);
                          digits = (if digits0 < 0 then 0 else nat digits0);
                          changed = round_half_even ds digits;
                          coeff0 = nat_of_digits (take digits ds);
                          carry = (changed > 0 \<and> length (digits_of (coeff0 + 1)) > ctx_prec);
                          coeff = (if changed > 0
                                   then (if carry then (coeff0 + 1) div 10 else coeff0 + 1)
                                   else coeff0);
                          exp_min' = (if carry then exp_min + 1 else exp_min)
                      in if exp_min' > Etop then Inl Overflow
                         else Inr (Finite s coeff exp_min')
                    else Inr d)"

text \<open>
  The loop of \<open>normalize\<close> that drops trailing zeros while the exponent is below
  \<open>exp_max\<close>. It runs on a non-zero coefficient only.
\<close>

function strip_zeros :: "nat \<Rightarrow> int \<Rightarrow> int \<Rightarrow> nat \<times> int" where
  "strip_zeros c e exp_max =
     (if c \<noteq> 0 \<and> c mod 10 = 0 \<and> e < exp_max
      then strip_zeros (c div 10) (e + 1) exp_max
      else (c, e))"
  by pat_completeness auto
termination
  by (relation "measure (\<lambda>(c, e, m). c)") auto

declare strip_zeros.simps [simp del]

definition normalize_dec :: "decimal \<Rightarrow> error + decimal" where
  "normalize_dec d =
     (case d of
        sNaN s p \<Rightarrow> Inl InvalidOperation
      | NaN s p \<Rightarrow> Inr (NaN s (fix_payload p))
      | _ \<Rightarrow>
          (case dec_fix d of
             Inl err \<Rightarrow> Inl err
           | Inr (Finite s c e) \<Rightarrow>
               if c = 0 then Inr (Finite s 0 0)
               else (case strip_zeros c e Emax of (c', e') \<Rightarrow> Inr (Finite s c' e'))
           | Inr dup \<Rightarrow> Inr dup))"

section \<open>\<open>as_tuple\<close> and \<open>format(val, 'f')\<close>\<close>

text \<open>
  The exponent of \<open>as_tuple()\<close> is an integer for a finite value and one of the
  letters \<open>'F'\<close>, \<open>'n'\<close>, \<open>'N'\<close> for an infinity, a NaN and a signalling NaN.
\<close>

datatype exponent = ExpInt int | ExpLetter char

definition as_tuple :: "decimal \<Rightarrow> nat \<times> nat list \<times> exponent" where
  "as_tuple d =
     (case d of
        Finite s c e \<Rightarrow> (if s then 1 else 0, digits_of c, ExpInt e)
      | Infinity s \<Rightarrow> (if s then 1 else 0, [0], ExpLetter CHR ''F'')
      | NaN s p \<Rightarrow> (if s then 1 else 0, p, ExpLetter CHR ''n'')
      | sNaN s p \<Rightarrow> (if s then 1 else 0, p, ExpLetter CHR ''N''))"

text \<open>
  \<open>Decimal.__format__\<close> with the specifier \<open>'f'\<close>: no precision, so nothing is
  rounded; a zero with a positive exponent is rescaled to exponent 0; the decimal point
  stands \<open>exponent + len(digits)\<close> places into the digits.
\<close>

definition format_sign :: "bool \<Rightarrow> string" where
  "format_sign s = (if s then ''-'' else '''')"

definition format_f :: "decimal \<Rightarrow> string" where
  "format_f d =
     (case d of
        Infinity s \<Rightarrow> format_sign s @ ''Infinity''
      | NaN s p \<Rightarrow> format_sign s @ ''NaN'' @ digit_string p
      | sNaN s p \<Rightarrow> format_sign s @ ''sNaN'' @ digit_string p
      | Finite s c e0 \<Rightarrow>
          let e = (if c = 0 \<and> e0 > 0 then 0 else e0);
              ds = digit_string (digits_of c);
              len = int (length ds);
              dotplace = e + len;
              intpart = (if dotplace < 0 then ''0''
                         else if dotplace > len then ds @ replicate (nat (dotplace - len)) CHR ''0''
                         else if take (nat dotplace) ds = [] then ''0''
                         else take (nat dotplace) ds);
              fracpart = (if dotplace < 0 then replicate (nat (- dotplace)) CHR ''0'' @ ds
                          else if dotplace > len then ''''
                          else drop (nat dotplace) ds)
          in format_sign s @ intpart @ (if fracpart = [] then '''' else ''.'' @ fracpart))"

section \<open>\<open>FormattedDecimalField.format_decimal\<close>\<close>

text \<open>
  The assertion fails on anything but a Decimal. Ordering the letter exponent of a
  special value against the integer limit raises \<open>TypeError\<close> (Python 3).
\<close>

definition format_decimal :: "pyvalue \<Rightarrow> int \<Rightarrow> int \<Rightarrow> error + string" where
  "format_decimal v max_digits exponent_limit =
     (case v of
        PyDecimal d \<Rightarrow>
          (case normalize_dec d of
             Inl err \<Rightarrow> Inl err
           | Inr val \<Rightarrow>
               (case as_tuple val of
                  (sign, digits, ExpLetter l) \<Rightarrow> Inl TypeError
                | (sign, digits, ExpInt ex) \<Rightarrow>
                    if ex > exponent_limit then Inl (ValueError (Exponent_too_large d))
                    else if ex < - exponent_limit then Inl (ValueError (Exponent_too_small d))
                    else if int (length digits) > max_digits then Inl (ValueError (Too_many_digits d))
                    else Inr (format_f val)))
      | _ \<Rightarrow> Inl AssertionError)"

definition is_digit :: "char \<Rightarrow> bool" where
  "is_digit ch = (48 \<le> (of_char ch :: nat) \<and> (of_char ch :: nat) \<le> 57)"

definition fixed_point :: "string \<Rightarrow> bool" where
  "fixed_point str =
     (let body = (case str of [] \<Rightarrow> [] | ch # r \<Rightarrow> if ch = CHR ''-'' then r else str);
          intpart = takeWhile is_digit body
      in intpart \<noteq> [] \<and>
         (case dropWhile is_digit body of
            [] \<Rightarrow> True
          | ch # fracpart \<Rightarrow> ch = CHR ''.'' \<and> fracpart \<noteq> [] \<and> list_all is_digit fracpart))"


section \<open>The identifier validator\<close>

text \<open>
  \<open>IdentifierValidator = RegexValidator("[a-z][a-z_]+")\<close>. The pattern is a sequence of
  items, each a character class taken once or one or more times (\<open>+\<close>). Calling a
  \<open>RegexValidator\<close> runs \<open>regex.search\<close> on the value, which looks for a match
  starting at any position, and raises \<open>ValidationError\<close> when there is none.
\<close>

datatype char_class = CharRange char char | CharLit char

datatype item = Once "char_class list" | OneOrMore "char_class list"

definition in_class :: "char_class list \<Rightarrow> char \<Rightarrow> bool" where
  "in_class cs ch =
     list_ex (\<lambda>k. case k of
                  CharRange lo hi \<Rightarrow> (of_char lo :: nat) \<le> of_char ch \<and> (of_char ch :: nat) \<le> of_char hi
                | CharLit x \<Rightarrow> ch = x) cs"

fun match_here :: "item list \<Rightarrow> string \<Rightarrow> bool" where
  "match_here [] s = True"
| "match_here (Once cs # r) [] = False"
| "match_here (Once cs # r) (ch # s) = (in_class cs ch \<and> match_here r s)"
| "match_here (OneOrMore cs # r) [] = False"
| "match_here (OneOrMore cs # r) (ch # s) =
     (in_class cs ch \<and> (match_here r s \<or> match_here (OneOrMore cs # r) s))"

fun regex_search :: "item list \<Rightarrow> string \<Rightarrow> bool" where
  "regex_search p [] = match_here p []"
| "regex_search p (ch # s) = (match_here p (ch # s) \<or> regex_search p s)"

datatype validator = MaxLengthValidator pyvalue | RegexValidator "item list"

definition IdentifierValidator :: validator where
  "IdentifierValidator =
     RegexValidator [Once [CharRange CHR ''a'' CHR ''z''],
                     OneOrMore [CharRange CHR ''a'' CHR ''z'', CharLit CHR ''_'']]"

definition RegexValidator_call :: "item list \<Rightarrow> string \<Rightarrow> error + unit" where
  "RegexValidator_call regex s = (if regex_search regex s then Inr () else Inl ValidationError)"

definition IdentifierValidator_call :: "string \<Rightarrow> error + unit" where
  "IdentifierValidator_call s =
     (case IdentifierValidator of
        RegexValidator regex \<Rightarrow> RegexValidator_call regex s
      | MaxLengthValidator n \<Rightarrow> Inr ())"

text \<open>
  The identifier pattern as the specification words it: the string consists of a
  lowercase letter followed by lowercase letters or underscores.
\<close>

definition lowercase :: "char \<Rightarrow> bool" where
  "lowercase ch = ((of_char CHR ''a'' :: nat) \<le> of_char ch \<and> (of_char ch :: nat) \<le> of_char CHR ''z'')"

definition spec_identifier :: "string \<Rightarrow> bool" where
  "spec_identifier s =
     (case s of
        [] \<Rightarrow> False
      | ch # r \<Rightarrow> lowercase ch \<and> r \<noteq> [] \<and> list_all (\<lambda>x. lowercase x \<or> x = CHR ''_'') r)"

section \<open>Model fields\<close>

text \<open>
  The attributes of a model field that the module reads or sets. The framework's
  \<open>Field.__init__\<close> stores each keyword argument under its own name, with the
  default of its signature where the keyword is not given, and a keyword it does not
  know is a \<open>TypeError\<close>. Validators passed by keyword are not carried.
  The attribute \<open>unique\<close> is the framework's property
  \<open>self._unique or self.primary_key\<close>: the keyword \<open>unique\<close> where it is
  truthy, the keyword \<open>primary_key\<close> otherwise.
\<close>

record field =
  fld_verbose_name :: pyvalue
  fld_max_length :: pyvalue
  fld_unique :: pyvalue
  fld_blank :: pyvalue
  fld_null :: pyvalue
  fld_default :: pyvalue
  fld_editable :: pyvalue
  fld_help_text :: pyvalue
  fld_max_digits :: pyvalue
  fld_decimal_places :: pyvalue
  fld_validators :: "validator list"

definition field_keywords :: "string list" where
  "field_keywords =
     [''verbose_name'', ''name'', ''primary_key'', ''max_length'', ''unique'', ''blank'',
      ''null'', ''db_index'', ''rel'', ''default'', ''editable'', ''serialize'',
      ''unique_for_date'', ''unique_for_month'', ''unique_for_year'', ''choices'',
      ''help_text'', ''db_column'', ''db_tablespace'', ''auto_created'', ''validators'',
      ''error_messages'']"

definition py_or :: "pyvalue \<Rightarrow> pyvalue \<Rightarrow> pyvalue" where
  "py_or a b = (if truthy a then a else b)"

definition Field_init :: "kwargs \<Rightarrow> error + field" where
  "Field_init kw =
     (if list_all (\<lambda>k. k \<in> set field_keywords) (map fst kw) then
        Inr \<lparr> fld_verbose_name = get_kw kw ''verbose_name'' PyNone,
              fld_max_length = get_kw kw ''max_length'' PyNone,
              fld_unique = py_or (get_kw kw ''unique'' (PyBool False))
                             (get_kw kw ''primary_key'' (PyBool False)),
              fld_blank = get_kw kw ''blank'' (PyBool False),
              fld_null = get_kw kw ''null'' (PyBool False),
              fld_default = get_kw kw ''default'' (PyObject ''NOT_PROVIDED''),
              fld_editable = get_kw kw ''editable'' (PyBool True),
              fld_help_text = get_kw kw ''help_text'' (PyStr ''''),
              fld_max_digits = PyNone,
              fld_decimal_places = PyNone,
              fld_validators = [] \<rparr>
      else Inl TypeError)"

text \<open>\<open>CharField.__init__\<close> adds the validator of the maximal length.\<close>

definition CharField_init :: "kwargs \<Rightarrow> error + field" where
  "CharField_init kw =
     (case Field_init kw of
        Inl err \<Rightarrow> Inl err
      | Inr self \<Rightarrow>
          Inr (self\<lparr>fld_validators := fld_validators self @ [MaxLengthValidator (fld_max_length self)]\<rparr>))"

text \<open>
  \<open>DecimalField.__init__\<close> takes \<open>max_digits\<close> and \<open>decimal_places\<close> (both \<open>None\<close>
  by default) and passes the other keywords on.
\<close>

definition DecimalField_init :: "kwargs \<Rightarrow> error + field" where
  "DecimalField_init kw =
     (case Field_init (pop (pop kw ''max_digits'') ''decimal_places'') of
        Inl err \<Rightarrow> Inl err
      | Inr self \<Rightarrow>
          Inr (self\<lparr>fld_max_digits := get_kw kw ''max_digits'' PyNone,
                    fld_decimal_places := get_kw kw ''decimal_places'' PyNone\<rparr>))"

section \<open>\<open>InternalIdentifierField\<close>\<close>

definition InternalIdentifierField_init :: "kwargs \<Rightarrow> error + field" where
  "InternalIdentifierField_init kwargs =
     (if map_of kwargs ''unique'' = None then Inl (ValueError Unique_flag_not_set)
      else
        let kwargs = setdefault kwargs ''max_length'' (PyInt 64);
            kwargs = setdefault kwargs ''blank'' (PyBool True);
            kwargs = setdefault kwargs ''null'' (PyBool (truthy (get_kw kwargs ''blank'' PyNone)));
            kwargs = setdefault kwargs ''verbose_name'' (PyStr ''internal identifier'');
            kwargs = setdefault kwargs ''help_text''
                       (PyStr ''Do not change this value if you are not sure what you are doing.'');
            kwargs = setdefault kwargs ''editable'' (PyBool False)
        in case CharField_init kwargs of
             Inl err \<Rightarrow> Inl err
           | Inr self \<Rightarrow> Inr (self\<lparr>fld_validators := fld_validators self @ [IdentifierValidator]\<rparr>))"

text \<open>
  \<open>CharField.get_prep_value\<close> is \<open>to_python\<close>: a string or \<open>None\<close> is returned as it
  is, anything else goes through \<open>str\<close>. The builtin \<open>str\<close> is a parameter.
\<close>

definition CharField_get_prep_value :: "(pyvalue \<Rightarrow> string) \<Rightarrow> pyvalue \<Rightarrow> pyvalue" where
  "CharField_get_prep_value str v =
     (case v of PyStr s \<Rightarrow> v | PyNone \<Rightarrow> v | _ \<Rightarrow> PyStr (str v))"

definition get_prep_value :: "(pyvalue \<Rightarrow> string) \<Rightarrow> field \<Rightarrow> pyvalue \<Rightarrow> pyvalue" where
  "get_prep_value str self v =
     (let prepared_value = CharField_get_prep_value str v
      in if truthy (fld_null self)
         then (if truthy prepared_value then prepared_value else PyNone)
         else prepared_value)"

text \<open>
  \<open>deconstruct\<close>: the name, path, positional and keyword arguments of the framework's
  \<open>deconstruct\<close> (a parameter), with three keywords set and two removed.
\<close>

definition deconstruct ::
  "(field \<Rightarrow> string \<times> string \<times> pyvalue list \<times> kwargs) \<Rightarrow> field
     \<Rightarrow> string \<times> string \<times> pyvalue list \<times> kwargs" where
  "deconstruct super_deconstruct self =
     (case super_deconstruct self of
        (name, path, args, kwargs) \<Rightarrow>
          let kwargs = AList.update ''null'' (fld_null self) kwargs;
              kwargs = AList.update ''unique'' (fld_unique self) kwargs;
              kwargs = AList.update ''blank'' (fld_blank self) kwargs;
              kwargs = pop kwargs ''verbose_name'';
              kwargs = pop kwargs ''help_text''
          in (name, path, args, kwargs))"

section \<open>\<open>FormattedDecimalFormField\<close>\<close>

text \<open>
  \<open>Decimal.__truediv__\<close> on two finite operands, each given by sign, coefficient and
  exponent. \<open>0 / 0\<close> signals \<open>InvalidOperation\<close> and \<open>x / 0\<close> signals
  \<open>DivisionByZero\<close>, both trapped. An exact quotient is brought as close to the ideal
  exponent as its trailing zeros allow; the result is rounded by \<open>_fix\<close>.
\<close>

definition truediv :: "bool \<times> nat \<times> int \<Rightarrow> bool \<times> nat \<times> int \<Rightarrow> error + decimal" where
  "truediv x y =
     (case (x, y) of
        ((s1, c1, e1), (s2, c2, e2)) \<Rightarrow>
          let sign = (s1 \<noteq> s2) in
          if c2 = 0 then (if c1 = 0 then Inl InvalidOperation else Inl DivisionByZero)
          else if c1 = 0 then dec_fix (Finite sign 0 (e1 - e2))
          else
            let shift = int (length (digits_of c2)) - int (length (digits_of c1)) + int ctx_prec + 1;
                exp = e1 - e2 - shift;
                num = (if shift \<ge> 0 then c1 * 10 ^ nat shift else c1);
                den = (if shift \<ge> 0 then c2 else c2 * 10 ^ nat (- shift));
                coeff = num div den;
                remainder = num mod den
            in if remainder \<noteq> 0
               then dec_fix (Finite sign (if coeff mod 5 = 0 then coeff + 1 else coeff) exp)
               else (case strip_zeros coeff exp (e1 - e2) of
                       (coeff', exp') \<Rightarrow> dec_fix (Finite sign coeff' exp')))"

text \<open>
  The attributes of the form field and of a widget that \<open>widget_attrs\<close> reads:
  \<open>decimal_places\<close> is an integer or \<open>None\<close> (the default of the framework's form
  field), \<open>is_NumberInput\<close> is \<open>isinstance(widget, NumberInput)\<close>.
\<close>

record form_field =
  decimal_places :: "int option"

record widget =
  is_NumberInput :: bool
  attrs :: kwargs

definition MAX_DECIMAL_PLACES_FOR_STEP :: int where
  "MAX_DECIMAL_PLACES_FOR_STEP = 5"

text \<open>
  The step of a number input without one. Ordering \<open>None\<close> against an integer raises
  \<open>TypeError\<close>. \<open>10 ** n\<close> is an integer for \<open>n \<ge> 0\<close> and a float for a negative
  \<open>n\<close>, and dividing a Decimal by a float raises \<open>TypeError\<close>.
\<close>

definition step_for :: "int option \<Rightarrow> error + string" where
  "step_for places =
     (case places of
        None \<Rightarrow> Inl TypeError
      | Some n \<Rightarrow>
          if n \<le> MAX_DECIMAL_PLACES_FOR_STEP then
            (if n < 0 then Inl TypeError
             else (case truediv (False, 1, 0) (False, 10 ^ nat n, 0) of
                     Inl err \<Rightarrow> Inl err
                   | Inr q \<Rightarrow> Inr (format_f q)))
          else Inr ''any'')"

text \<open>
  \<open>widget_attrs\<close> sets the step in the widget's own attributes and returns what the
  framework's \<open>widget_attrs\<close> (a parameter) returns for the widget.
\<close>

definition widget_attrs :: "(widget \<Rightarrow> kwargs) \<Rightarrow> form_field \<Rightarrow> widget \<Rightarrow> error + widget \<times> kwargs" where
  "widget_attrs super_widget_attrs self w =
     (if is_NumberInput w \<and> map_of (attrs w) ''step'' = None then
        (case step_for (decimal_places self) of
           Inl err \<Rightarrow> Inl err
         | Inr step \<Rightarrow>
             let w' = w\<lparr>attrs := setdefault (attrs w) ''step'' (PyStr step)\<rparr>
             in Inr (w', super_widget_attrs w'))
      else Inr (w, super_widget_attrs w))"

text \<open>
  The step as the specification words it: the decimal fraction \<open>1/10^n\<close> in fixed-point
  notation, that is \<open>1\<close> for \<open>n = 0\<close> and otherwise \<open>0.\<close>, \<open>n - 1\<close> zeros and a \<open>1\<close>.
\<close>

definition spec_step_fraction :: "nat \<Rightarrow> string" where
  "spec_step_fraction n = (if n = 0 then ''1'' else ''0.'' @ replicate (n - 1) CHR ''0'' @ ''1'')"

section \<open>\<open>FormattedDecimalField\<close>, \<open>MoneyValueField\<close>, \<open>QuantityField\<close>\<close>

text \<open>
  \<open>value_from_object\<close>: the framework's \<open>value_from_object\<close> reads the attribute of
  the object and is a parameter, as are the builtin \<open>str\<close> and the constructor
  \<open>decimal.Decimal\<close> on a string. A value that is not a number falls off the end of
  the method, which returns \<open>None\<close>. \<open>format_decimal\<close> is called with its default
  limits.
\<close>

definition value_from_object ::
  "('obj \<Rightarrow> error + pyvalue) \<Rightarrow> (pyvalue \<Rightarrow> string) \<Rightarrow> (string \<Rightarrow> error + decimal)
     \<Rightarrow> 'obj \<Rightarrow> error + pyvalue" where
  "value_from_object super_value_from_object str Decimal obj =
     (case super_value_from_object obj of
        Inl err \<Rightarrow> Inl err
      | Inr v \<Rightarrow>
          if isinstance_Number v then
            (case Decimal (str v) of
               Inl err \<Rightarrow> Inl err
             | Inr d \<Rightarrow>
                 (case format_decimal (PyDecimal d) 100 100 of
                    Inl err \<Rightarrow> Inl err
                  | Inr s \<Rightarrow> Inr (PyStr s)))
          else Inr PyNone)"

definition formfield :: "(kwargs \<Rightarrow> 'form) \<Rightarrow> kwargs \<Rightarrow> 'form" where
  "formfield super_formfield kwargs =
     super_formfield (setdefault kwargs ''form_class'' (PyObject ''FormattedDecimalFormField''))"

definition MONEY_FIELD_DECIMAL_PLACES :: int where
  "MONEY_FIELD_DECIMAL_PLACES = 9"

definition FORMATTED_DECIMAL_FIELD_DECIMAL_PLACES :: int where
  "FORMATTED_DECIMAL_FIELD_DECIMAL_PLACES = 9"

definition FORMATTED_DECIMAL_FIELD_MAX_DIGITS :: int where
  "FORMATTED_DECIMAL_FIELD_MAX_DIGITS = 36"

definition MoneyValueField_init :: "kwargs \<Rightarrow> error + field" where
  "MoneyValueField_init kwargs =
     (let kwargs = setdefault kwargs ''decimal_places'' (PyInt MONEY_FIELD_DECIMAL_PLACES);
          kwargs = setdefault kwargs ''max_digits'' (PyInt FORMATTED_DECIMAL_FIELD_MAX_DIGITS)
      in DecimalField_init kwargs)"

definition QuantityField_init :: "kwargs \<Rightarrow> error + field" where
  "QuantityField_init kwargs =
     (let kwargs = setdefault kwargs ''decimal_places'' (PyInt FORMATTED_DECIMAL_FIELD_DECIMAL_PLACES);
          kwargs = setdefault kwargs ''max_digits'' (PyInt FORMATTED_DECIMAL_FIELD_MAX_DIGITS);
          kwargs = setdefault kwargs ''default'' (PyInt 0)
      in DecimalField_init kwargs)"

section \<open>Properties of the decimal formatting\<close>

lemma digits_of_nonempty: "digits_of n \<noteq> []"
  by (subst digits_of.simps) simp

lemma digits_of_lt10: "d \<in> set (digits_of n) \<Longrightarrow> d < 10"
proof (induction n arbitrary: d rule: digits_of.induct)
  case (1 n)
  show ?case
  proof (cases "n < 10")
    case True
    with "1.prems" show ?thesis by (subst (asm) digits_of.simps) simp
  next
    case False
    with "1.prems" have "d \<in> set (digits_of (n div 10)) \<or> d = n mod 10"
      by (subst (asm) digits_of.simps) auto
    with False "1.IH" show ?thesis by auto
  qed
qed

lemma is_digit_digit_char: "d < 10 \<Longrightarrow> is_digit (digit_char d)"
  by (simp add: is_digit_def digit_char_def)

lemma not_digit_minus: "\<not> is_digit CHR ''-''" "\<not> is_digit CHR ''.''" "is_digit CHR ''0''"
  by (simp_all add: is_digit_def)

lemma digit_string_digits: "list_all is_digit (digit_string (digits_of c))"
  by (simp add: digit_string_def list_all_iff digits_of_lt10 is_digit_digit_char)

lemma fixed_point_shape:
  assumes "list_all is_digit ip" "ip \<noteq> []" "list_all is_digit fp"
  shows "fixed_point (format_sign s @ ip @ (if fp = [] then '''' else ''.'' @ fp))"
proof -
  obtain a r where ip: "ip = a # r" using assms(2) by (cases ip) auto
  have a: "is_digit a" "a \<noteq> CHR ''-''" using assms(1) ip not_digit_minus by auto
  have tw: "takeWhile is_digit (ip @ (if fp = [] then '''' else ''.'' @ fp)) = ip"
    using assms(1) by (auto simp: list_all_iff takeWhile_append2 not_digit_minus)
  have dw: "dropWhile is_digit (ip @ (if fp = [] then '''' else ''.'' @ fp)) = (if fp = [] then '''' else ''.'' @ fp)"
    using assms(1) by (auto simp: list_all_iff dropWhile_append2 not_digit_minus)
  have body: "(case format_sign s @ ip @ (if fp = [] then '''' else ''.'' @ fp) of [] \<Rightarrow> [] | ch # r \<Rightarrow> if ch = CHR ''-'' then r else format_sign s @ ip @ (if fp = [] then '''' else ''.'' @ fp)) = ip @ (if fp = [] then '''' else ''.'' @ fp)"
    using a by (simp add: format_sign_def ip)
  show ?thesis
    unfolding fixed_point_def body Let_def tw dw using assms by auto
qed

lemma fixed_point_chars:
  assumes "fixed_point str" "ch \<in> set str"
  shows "is_digit ch \<or> ch = CHR ''-'' \<or> ch = CHR ''.''"
proof -
  define body where "body = (case str of [] \<Rightarrow> [] | ch # r \<Rightarrow> if ch = CHR ''-'' then r else str)"
  have str: "str = body \<or> str = CHR ''-'' # body"
    by (cases str) (auto simp: body_def)
  have split: "body = takeWhile is_digit body @ dropWhile is_digit body" by simp
  have tw: "\<And>x. x \<in> set (takeWhile is_digit body) \<Longrightarrow> is_digit x"
    by (rule set_takeWhileD[THEN conjunct2])
  have dw: "\<And>x. x \<in> set (dropWhile is_digit body) \<Longrightarrow> is_digit x \<or> x = CHR ''.''"
    using assms(1) unfolding fixed_point_def Let_def body_def[symmetric]
    by (cases "dropWhile is_digit body") (auto simp: list_all_iff)
  have "ch \<in> set body \<or> ch = CHR ''-''" using str assms(2) by auto
  moreover have "ch \<in> set body \<Longrightarrow> is_digit ch \<or> ch = CHR ''.''"
    using tw dw by (subst (asm) split) (auto simp del: takeWhile_dropWhile_id)
  ultimately show ?thesis by blast
qed

lemma no_exponent_marker: "fixed_point str \<Longrightarrow> CHR ''e'' \<notin> set str \<and> CHR ''E'' \<notin> set str"
  using fixed_point_chars[of str "CHR ''e''"] fixed_point_chars[of str "CHR ''E''"]
  by (auto simp: is_digit_def)


lemma format_f_fixed_point: "fixed_point (format_f (Finite s c e0))"
proof -
  define e where "e = (if c = 0 \<and> e0 > 0 then 0 else e0)"
  define ds where "ds = digit_string (digits_of c)"
  define dotplace where "dotplace = e + int (length ds)"
  define ip where "ip = (if dotplace < 0 then ''0''
                         else if dotplace > int (length ds) then ds @ replicate (nat (dotplace - int (length ds))) CHR ''0''
                         else if take (nat dotplace) ds = [] then ''0''
                         else take (nat dotplace) ds)"
  define fp where "fp = (if dotplace < 0 then replicate (nat (- dotplace)) CHR ''0'' @ ds
                          else if dotplace > int (length ds) then ''''
                          else drop (nat dotplace) ds)"
  have eq: "format_f (Finite s c e0) = format_sign s @ ip @ (if fp = [] then '''' else ''.'' @ fp)"
    by (simp add: format_f_def Let_def e_def ds_def dotplace_def ip_def fp_def)
  have ds: "list_all is_digit ds" "ds \<noteq> []"
    by (simp add: ds_def digit_string_digits) (simp add: ds_def digit_string_def digits_of_nonempty)
  have z: "is_digit CHR ''0''" by (simp add: is_digit_def)
  have 1: "list_all is_digit ip"
    using ds z by (auto simp: ip_def list_all_iff dest: in_set_takeD)
  have 2: "ip \<noteq> []"
    using ds by (auto simp: ip_def)
  have 3: "list_all is_digit fp"
    using ds z by (auto simp: fp_def list_all_iff dest: in_set_dropD)
  show ?thesis unfolding eq by (rule fixed_point_shape[OF 1 2 3])
qed

text \<open>
  Claim C1. Whenever the normalized value is finite with an exponent of magnitude at most
  \<open>exponent_limit\<close> and at most \<open>max_digits\<close> digits, \<open>format_decimal\<close> returns
  \<open>format(val, 'f')\<close> of it, and that string is plain fixed-point notation: an optional
  minus sign, one or more digits, and optionally a point followed by one or more digits.
  In particular it holds no exponent marker.
\<close>

theorem format_decimal_fixed_point:
  assumes "normalize_dec d = Inr (Finite s c e)"
      and "\<bar>e\<bar> \<le> exponent_limit"
      and "int (length (digits_of c)) \<le> max_digits"
  shows "format_decimal (PyDecimal d) max_digits exponent_limit = Inr (format_f (Finite s c e))
         \<and> fixed_point (format_f (Finite s c e))
         \<and> CHR ''e'' \<notin> set (format_f (Finite s c e))
         \<and> CHR ''E'' \<notin> set (format_f (Finite s c e))"
  using assms format_f_fixed_point[of s c e] no_exponent_marker[of "format_f (Finite s c e)"]
  by (auto simp add: format_decimal_def as_tuple_def)

text \<open>\<open>Decimal('-12.500')\<close> normalizes to \<open>Decimal('-12.5')\<close> and is formatted as \<open>'-12.5'\<close>.\<close>

lemma normalize_example: "normalize_dec (Finite True 12500 (- 3)) = Inr (Finite True 125 (- 1))"
  by (simp add: normalize_dec_def dec_fix_def Let_def ctx_prec_def Etop_def Etiny_def Emax_def Emin_def
      digits_of.simps strip_zeros.simps)

lemma format_example: "format_f (Finite True 125 (- 1)) = ''-12.5''"
  by code_simp

theorem format_decimal_fixed_point_witness:
  "format_decimal (PyDecimal (Finite True 12500 (- 3))) 100 100 = Inr ''-12.5''
   \<and> fixed_point ''-12.5'' \<and> CHR ''e'' \<notin> set ''-12.5'' \<and> CHR ''E'' \<notin> set ''-12.5''"
proof -
  have n: "normalize_dec (Finite True 12500 (- 3)) = Inr (Finite True 125 (- 1))"
    by (rule normalize_example)
  have l: "int (length (digits_of 125)) \<le> 100" by (simp add: digits_of.simps)
  show ?thesis
    using format_decimal_fixed_point[OF n _ l, of 100] by (simp add: format_example)
qed


lemma dec_fix_finite_cases:
  "dec_fix (Finite s c e) = Inl Overflow \<or> (\<exists>c' e'. dec_fix (Finite s c e) = Inr (Finite s c' e'))"
  by (simp add: dec_fix_def Let_def)

lemma dec_fix_finite_ok:
  assumes "c = 0 \<or> int (length (digits_of c)) + e \<le> Emax"
  shows "\<exists>c' e'. dec_fix (Finite s c e) = Inr (Finite s c' e')"
  using assms
  by (auto simp add: dec_fix_def Let_def Etop_def Etiny_def Emin_def Emax_def ctx_prec_def)

lemma normalize_finite_cases:
  "normalize_dec (Finite s c e) = Inl Overflow \<or> (\<exists>c' e'. normalize_dec (Finite s c e) = Inr (Finite s c' e'))"
proof -
  consider (ovf) "dec_fix (Finite s c e) = Inl Overflow"
    | (ok) c' e' where "dec_fix (Finite s c e) = Inr (Finite s c' e')"
    using dec_fix_finite_cases[of s c e] by blast
  then show ?thesis
  proof cases
    case ovf
    then show ?thesis by (simp add: normalize_dec_def)
  next
    case ok
    obtain x1 x2 where "strip_zeros c' e' Emax = (x1, x2)"
      by (cases "strip_zeros c' e' Emax") auto
    with ok show ?thesis by (simp add: normalize_dec_def)
  qed
qed

lemma normalize_finite_ok:
  assumes "c = 0 \<or> int (length (digits_of c)) + e \<le> Emax"
  shows "\<exists>c' e'. normalize_dec (Finite s c e) = Inr (Finite s c' e')"
proof -
  obtain c' e' where ok: "dec_fix (Finite s c e) = Inr (Finite s c' e')"
    using dec_fix_finite_ok[OF assms, of s] by blast
  obtain x1 x2 where "strip_zeros c' e' Emax = (x1, x2)"
    by (cases "strip_zeros c' e' Emax") auto
  with ok show ?thesis by (simp add: normalize_dec_def)
qed

text \<open>
  \<open>Decimal('1E-1000030')\<close> is below the smallest exponent of the default context and
  is rounded to zero, which normalizes to \<open>Decimal('0')\<close>.
\<close>

lemma round_down_example: "round_half_even [1] 0 = - 1"
  by (simp add: round_half_even_def round_half_up_def exact_half_def all_zeros_def)

lemma dec_fix_underflow: "dec_fix (Finite False 1 (- 1000030)) = Inr (Finite False 0 (- 1000026))"
  by (simp add: dec_fix_def Let_def ctx_prec_def Etop_def Etiny_def Emax_def Emin_def
      digits_of.simps round_down_example nat_of_digits_def del: One_nat_def)

lemma normalize_underflow: "normalize_dec (Finite False 1 (- 1000030)) = Inr (Finite False 0 0)"
  by (simp add: normalize_dec_def dec_fix_underflow del: One_nat_def)

lemma format_zero: "format_f (Finite False 0 0) = ''0''"
  by code_simp

lemma format_decimal_underflow:
  "format_decimal (PyDecimal (Finite False 1 (- 1000030))) 100 100 = Inr ''0''"
  by (simp add: format_decimal_def normalize_underflow as_tuple_def format_zero digits_of.simps
      del: One_nat_def)

text \<open>
  A coefficient of 31 digits is rounded half-even to 28 digits:
  \<open>Decimal('1234567890123456789012345678901').normalize()\<close> is \<open>Decimal('1234567890123456789012345679E+3')\<close>.
\<close>

lemma digits_of_31: "digits_of 1234567890123456789012345678901 = [1, 2, 3, 4, 5, 6, 7, 8, 9, 0, 1, 2, 3, 4, 5, 6, 7, 8, 9, 0, 1, 2, 3, 4, 5, 6, 7, 8, 9, 0, 1]"
  by (simp add: digits_of.simps)

lemma round_31: "round_half_even [1, 2, 3, 4, 5, 6, 7, 8, 9, 0, 1, 2, 3, 4, 5, 6, 7, 8, 9, 0, 1, 2, 3, 4, 5, 6, 7, 8, 9, 0, 1] 28 = 1"
  by (simp add: round_half_even_def round_half_up_def exact_half_def all_zeros_def)

lemma nat_of_digits_28: "nat_of_digits [1, 2, 3, 4, 5, 6, 7, 8, 9, 0, 1, 2, 3, 4, 5, 6, 7, 8, 9, 0, 1, 2, 3, 4, 5, 6, 7, 8] = 1234567890123456789012345678"
  by (simp add: nat_of_digits_def)

lemma digits_of_28: "digits_of 1234567890123456789012345679 = [1, 2, 3, 4, 5, 6, 7, 8, 9, 0, 1, 2, 3, 4, 5, 6, 7, 8, 9, 0, 1, 2, 3, 4, 5, 6, 7, 9]"
  by (simp add: digits_of.simps)

lemma dec_fix_31: "dec_fix (Finite False 1234567890123456789012345678901 0) = Inr (Finite False 1234567890123456789012345679 3)"
  by (simp add: dec_fix_def Let_def ctx_prec_def Etop_def Etiny_def Emax_def Emin_def
      digits_of_31 round_31 nat_of_digits_28 digits_of_28 del: One_nat_def)

lemma normalize_31: "normalize_dec (Finite False 1234567890123456789012345678901 0) = Inr (Finite False 1234567890123456789012345679 3)"
  by (simp add: normalize_dec_def dec_fix_31 strip_zeros.simps Emax_def)

lemma digit_string_28: "digit_string [1, 2, 3, 4, 5, 6, 7, 8, 9, 0, 1, 2, 3, 4, 5, 6, 7, 8, 9, 0, 1, 2, 3, 4, 5, 6, 7, 9] = ''1234567890123456789012345679''"
  by (simp add: digit_string_def digit_char_def del: One_nat_def) code_simp

lemma replicate_3: "replicate 3 c = [c, c, c]"
  by (simp add: numeral_3_eq_3)

lemma format_31: "format_f (Finite False 1234567890123456789012345679 3) = ''1234567890123456789012345679000''"
  by (simp add: format_f_def format_sign_def digits_of_28 digit_string_28 replicate_3
      del: One_nat_def)

lemma format_decimal_31:
  "format_decimal (PyDecimal (Finite False 1234567890123456789012345678901 0)) 30 100 = Inr ''1234567890123456789012345679000''"
  by (simp add: format_decimal_def normalize_31 as_tuple_def format_31 digits_of_28)

text \<open>
  Claim C2 fails on the code. \<open>format_decimal\<close> tests the exponent and the digits of
  \<open>value.normalize()\<close>, which the decimal library computes under the default arithmetic
  context: 28 significant digits, exponents between \<open>-999999\<close> and \<open>999999\<close>. So the
  value is rounded, or the library raises, before the three tests are reached:
  \<^item> \<open>Decimal('1E-1000030')\<close> has an exponent below \<open>-exponent_limit\<close>, but it underflows
    to zero and \<open>format_decimal\<close> returns \<open>'0'\<close>, not "Exponent is too small";
  \<^item> \<open>Decimal('1E+1000000')\<close> has an exponent above \<open>exponent_limit\<close>, but normalizing
    raises \<open>decimal.Overflow\<close>, not the \<open>ValueError\<close> "Exponent is too large";
  \<^item> a coefficient of 31 digits with \<open>max_digits = 30\<close> is rounded to 28 digits and
    formatted, not refused with "Too many digits";
  \<^item> \<open>Decimal('Infinity')\<close> has a letter as exponent, and comparing it with the limit
    raises \<open>TypeError\<close>; \<open>Decimal('sNaN')\<close> raises \<open>decimal.InvalidOperation\<close>.
\<close>

theorem format_decimal_limits_missed:
  "format_decimal (PyDecimal (Finite False 1 (- 1000030))) 100 100 = Inr ''0''
   \<and> format_decimal (PyDecimal (Finite False 1 1000000)) 100 100 = Inl Overflow
   \<and> format_decimal (PyDecimal (Finite False 1234567890123456789012345678901 0)) 30 100
       = Inr ''1234567890123456789012345679000''
   \<and> format_decimal (PyDecimal (Infinity False)) 100 100 = Inl TypeError
   \<and> format_decimal (PyDecimal (sNaN False [])) 100 100 = Inl InvalidOperation"
proof -
  have "format_decimal (PyDecimal (Finite False 1 1000000)) 100 100 = Inl Overflow"
    by (simp add: format_decimal_def normalize_dec_def dec_fix_def Let_def ctx_prec_def
        Etop_def Etiny_def Emax_def Emin_def digits_of.simps)
  moreover have "format_decimal (PyDecimal (Infinity False)) 100 100 = Inl TypeError"
    by (simp add: format_decimal_def normalize_dec_def dec_fix_def as_tuple_def)
  moreover have "format_decimal (PyDecimal (sNaN False [])) 100 100 = Inl InvalidOperation"
    by (simp add: format_decimal_def normalize_dec_def)
  ultimately show ?thesis
    using format_decimal_underflow format_decimal_31 by simp
qed
section \<open>Properties of the identifier field\<close>

lemma setdefault_apply:
  "map_of (setdefault kw k d) k' =
     (if k' = k then (case map_of kw k of None \<Rightarrow> Some d | Some v \<Rightarrow> Some v) else map_of kw k')"
  by (auto simp add: setdefault_def map_add_def split: option.splits)

lemma get_kw_setdefault:
  "get_kw (setdefault kw k d) k' dflt = (if k' = k then get_kw kw k d else get_kw kw k' dflt)"
  by (simp add: get_kw_def setdefault_apply split: option.splits)

text \<open>
  Claim C3. Keyword arguments without the key \<open>unique\<close> make the constructor of
  \<open>InternalIdentifierField\<close> raise the \<open>ValueError\<close> about the flag, whatever the other
  keywords are.
\<close>

theorem init_requires_unique:
  "map_of kwargs ''unique'' = None \<Longrightarrow> InternalIdentifierField_init kwargs = Inl (ValueError Unique_flag_not_set)"
  by (simp add: InternalIdentifierField_init_def)

text \<open>
  With \<open>blank=True, max_length=32\<close> and no \<open>unique\<close> the constructor raises.
\<close>

theorem init_requires_unique_witness:
  "map_of [(''blank'', PyBool True), (''max_length'', PyInt 32)] ''unique'' = None
   \<and> InternalIdentifierField_init [(''blank'', PyBool True), (''max_length'', PyInt 32)]
       = Inl (ValueError Unique_flag_not_set)"
  using init_requires_unique[of "[(''blank'', PyBool True), (''max_length'', PyInt 32)]"] by simp

lemma Field_init_attrs:
  assumes "Field_init kw = Inr f"
  shows "fld_unique f = py_or (get_kw kw ''unique'' (PyBool False))
                           (get_kw kw ''primary_key'' (PyBool False))"
    and "fld_blank f = get_kw kw ''blank'' (PyBool False)"
    and "fld_null f = get_kw kw ''null'' (PyBool False)"
    and "fld_default f = get_kw kw ''default'' (PyObject ''NOT_PROVIDED'')"
    and "fld_max_digits f = PyNone"
    and "fld_decimal_places f = PyNone"
proof -
  have f: "f = \<lparr> fld_verbose_name = get_kw kw ''verbose_name'' PyNone,
              fld_max_length = get_kw kw ''max_length'' PyNone,
              fld_unique = py_or (get_kw kw ''unique'' (PyBool False))
                             (get_kw kw ''primary_key'' (PyBool False)),
              fld_blank = get_kw kw ''blank'' (PyBool False),
              fld_null = get_kw kw ''null'' (PyBool False),
              fld_default = get_kw kw ''default'' (PyObject ''NOT_PROVIDED''),
              fld_editable = get_kw kw ''editable'' (PyBool True),
              fld_help_text = get_kw kw ''help_text'' (PyStr ''''),
              fld_max_digits = PyNone,
              fld_decimal_places = PyNone,
              fld_validators = [] \<rparr>"
    using assms unfolding Field_init_def by (cases "list_all (\<lambda>k. k \<in> set field_keywords) (map fst kw)") simp_all
  show "fld_unique f = py_or (get_kw kw ''unique'' (PyBool False))
                           (get_kw kw ''primary_key'' (PyBool False))" by (subst f) simp
  show "fld_blank f = get_kw kw ''blank'' (PyBool False)" by (subst f) simp
  show "fld_null f = get_kw kw ''null'' (PyBool False)" by (subst f) simp
  show "fld_default f = get_kw kw ''default'' (PyObject ''NOT_PROVIDED'')" by (subst f) simp
  show "fld_max_digits f = PyNone" by (subst f) simp
  show "fld_decimal_places f = PyNone" by (subst f) simp
qed

lemma CharField_init_attrs:
  assumes "CharField_init kw = Inr f"
  shows "fld_unique f = py_or (get_kw kw ''unique'' (PyBool False))
                           (get_kw kw ''primary_key'' (PyBool False))"
    and "fld_blank f = get_kw kw ''blank'' (PyBool False)"
    and "fld_null f = get_kw kw ''null'' (PyBool False)"
proof -
  obtain g where g: "Field_init kw = Inr g"
    and f: "f = g\<lparr>fld_validators := fld_validators g @ [MaxLengthValidator (fld_max_length g)]\<rparr>"
    using assms unfolding CharField_init_def by (cases "Field_init kw") auto
  show "fld_unique f = py_or (get_kw kw ''unique'' (PyBool False))
                           (get_kw kw ''primary_key'' (PyBool False))"
    using Field_init_attrs(1)[OF g] by (simp add: f)
  show "fld_blank f = get_kw kw ''blank'' (PyBool False)"
    using Field_init_attrs(2)[OF g] by (simp add: f)
  show "fld_null f = get_kw kw ''null'' (PyBool False)"
    using Field_init_attrs(3)[OF g] by (simp add: f)
qed

lemma IdentifierField_attrs:
  assumes "InternalIdentifierField_init kw = Inr f"
  shows "fld_unique f = py_or (get_kw kw ''unique'' (PyBool False))
                           (get_kw kw ''primary_key'' (PyBool False))"
    and "fld_blank f = get_kw kw ''blank'' (PyBool True)"
    and "fld_null f = get_kw kw ''null'' (PyBool (truthy (get_kw kw ''blank'' (PyBool True))))"
proof -
  define kw1 where "kw1 = setdefault (setdefault kw ''max_length'' (PyInt 64)) ''blank'' (PyBool True)"
  define kw2 where "kw2 = setdefault kw1 ''null'' (PyBool (truthy (get_kw kw1 ''blank'' PyNone)))"
  define kw3 where "kw3 = setdefault (setdefault (setdefault kw2 ''verbose_name'' (PyStr ''internal identifier''))
      ''help_text'' (PyStr ''Do not change this value if you are not sure what you are doing.''))
      ''editable'' (PyBool False)"
  have u: "map_of kw ''unique'' \<noteq> None"
    using assms unfolding InternalIdentifierField_init_def by (cases "map_of kw ''unique'' = None") simp_all
  obtain g where g: "CharField_init kw3 = Inr g"
    and f: "f = g\<lparr>fld_validators := fld_validators g @ [IdentifierValidator]\<rparr>"
    using assms u unfolding InternalIdentifierField_init_def Let_def kw1_def kw2_def kw3_def
    by (cases "CharField_init kw3") (auto simp: kw1_def kw2_def kw3_def)
  have b1: "get_kw kw1 ''blank'' dflt = get_kw kw ''blank'' (PyBool True)" for dflt
    by (simp add: kw1_def get_kw_setdefault)
  have 1: "get_kw kw3 ''unique'' dflt = get_kw kw ''unique'' dflt"
          "get_kw kw3 ''primary_key'' dflt = get_kw kw ''primary_key'' dflt" for dflt
    by (simp_all add: kw3_def kw2_def kw1_def get_kw_setdefault)
  have 2: "get_kw kw3 ''blank'' dflt = get_kw kw ''blank'' (PyBool True)" for dflt
    by (simp add: kw3_def kw2_def get_kw_setdefault b1)
  have 3: "get_kw kw3 ''null'' dflt = get_kw kw ''null'' (PyBool (truthy (get_kw kw ''blank'' (PyBool True))))" for dflt
    by (simp add: kw3_def kw2_def get_kw_setdefault b1) (simp add: kw1_def get_kw_setdefault)
  show "fld_unique f = py_or (get_kw kw ''unique'' (PyBool False))
                           (get_kw kw ''primary_key'' (PyBool False))"
    using CharField_init_attrs(1)[OF g] by (simp add: f 1)
  show "fld_blank f = get_kw kw ''blank'' (PyBool True)"
    using CharField_init_attrs(2)[OF g] by (simp add: f 2)
  show "fld_null f = get_kw kw ''null'' (PyBool (truthy (get_kw kw ''blank'' (PyBool True))))"
    using CharField_init_attrs(3)[OF g] by (simp add: f 3)
qed


text \<open>
  Claim C4, as amended. \<open>get_prep_value\<close> looks at the field's \<open>null\<close> flag: when it is
  truthy, the empty string and \<open>None\<close> are prepared as \<open>None\<close>, and the empty string is
  never returned. For every field and value the result is \<open>None\<close> or a string. A field
  constructed without the keyword \<open>null\<close> and with \<open>blank\<close> permitted (given truthy, or
  left to its default \<open>True\<close>) has a truthy \<open>null\<close> flag.
\<close>

theorem get_prep_value_null:
  "(truthy (fld_null self) \<longrightarrow>
      get_prep_value str self (PyStr []) = PyNone
    \<and> get_prep_value str self PyNone = PyNone
    \<and> get_prep_value str self v \<noteq> PyStr [])
   \<and> (get_prep_value str self v = PyNone \<or> (\<exists>s. get_prep_value str self v = PyStr s))
   \<and> (InternalIdentifierField_init kw = Inr self \<and> map_of kw ''null'' = None
        \<and> truthy (get_kw kw ''blank'' (PyBool True)) \<longrightarrow> truthy (fld_null self))"
proof -
  have a: "get_prep_value str self (PyStr []) = PyNone
    \<and> get_prep_value str self PyNone = PyNone
    \<and> get_prep_value str self v \<noteq> PyStr []" if "truthy (fld_null self)"
    using that by (cases v) (auto simp: get_prep_value_def CharField_get_prep_value_def truthy_def Let_def)
  have b: "get_prep_value str self v = PyNone \<or> (\<exists>s. get_prep_value str self v = PyStr s)"
    by (cases v) (auto simp: get_prep_value_def CharField_get_prep_value_def Let_def)
  have c: "truthy (fld_null self)"
    if "InternalIdentifierField_init kw = Inr self \<and> map_of kw ''null'' = None
        \<and> truthy (get_kw kw ''blank'' (PyBool True))"
    using that IdentifierField_attrs(3)[of kw self] by (simp add: get_kw_def truthy_def)
  from a b c show ?thesis by blast
qed

text \<open>
  Claim C5 fails on the code. The validator searches for the pattern anywhere in the
  value, so it accepts \<open>"9ab!"\<close>, which is not a lowercase letter followed by lowercase
  letters or underscores.
\<close>

theorem IdentifierValidator_unanchored:
  "IdentifierValidator_call ''9ab!'' = Inr () \<and> \<not> spec_identifier ''9ab!''"
  by (simp add: IdentifierValidator_call_def IdentifierValidator_def RegexValidator_call_def
      in_class_def spec_identifier_def lowercase_def)

text \<open>
  The other direction holds: a string of the specified form is accepted.
\<close>

lemma spec_identifier_accepted:
  assumes "spec_identifier s"
  shows "IdentifierValidator_call s = Inr ()"
proof -
  obtain a b r where s: "s = a # b # r" and a: "lowercase a" and b: "lowercase b \<or> b = CHR ''_''"
    using assms by (cases s; cases "tl s") (auto simp: spec_identifier_def)
  have "match_here [Once [CharRange CHR ''a'' CHR ''z''], OneOrMore [CharRange CHR ''a'' CHR ''z'', CharLit CHR ''_'']] s"
    using a b by (auto simp: s in_class_def lowercase_def)
  then have "regex_search [Once [CharRange CHR ''a'' CHR ''z''], OneOrMore [CharRange CHR ''a'' CHR ''z'', CharLit CHR ''_'']] s"
    by (simp add: s)
  then show ?thesis
    by (simp add: IdentifierValidator_call_def IdentifierValidator_def RegexValidator_call_def)
qed

text \<open>
  Claim C10. For a constructed \<open>InternalIdentifierField\<close>, whatever the framework's
  \<open>deconstruct\<close> returns, the keyword arguments that \<open>deconstruct\<close> returns hold the
  field's \<open>null\<close>, \<open>unique\<close> and \<open>blank\<close> attributes under these names and hold
  neither \<open>verbose_name\<close> nor \<open>help_text\<close>.
\<close>

theorem deconstruct_kwargs:
  assumes "InternalIdentifierField_init kw = Inr self"
  shows "case deconstruct super_deconstruct self of
           (name, path, args, kwargs) \<Rightarrow>
             map_of kwargs ''null'' = Some (fld_null self)
           \<and> map_of kwargs ''unique'' = Some (fld_unique self)
           \<and> map_of kwargs ''blank'' = Some (fld_blank self)
           \<and> map_of kwargs ''verbose_name'' = None
           \<and> map_of kwargs ''help_text'' = None"
  by (cases "super_deconstruct self")
     (simp add: deconstruct_def pop_def Let_def update_conv' delete_conv')

lemma identifier_field_example:
  "InternalIdentifierField_init [(''unique'', PyBool True)] =
     Inr \<lparr>fld_verbose_name = PyStr ''internal identifier'',
          fld_max_length = PyInt 64, fld_unique = PyBool True,
          fld_blank = PyBool True, fld_null = PyBool True,
          fld_default = PyObject ''NOT_PROVIDED'',
          fld_editable = PyBool False,
          fld_help_text = PyStr ''Do not change this value if you are not sure what you are doing.'',
          fld_max_digits = PyNone, fld_decimal_places = PyNone,
          fld_validators = [MaxLengthValidator (PyInt 64), IdentifierValidator]\<rparr>"
  by (simp add: InternalIdentifierField_init_def CharField_init_def Field_init_def Let_def
      setdefault_def get_kw_def field_keywords_def truthy_def py_or_def)

lemma identifier_field_not_null_example:
  "InternalIdentifierField_init [(''unique'', PyBool True), (''blank'', PyBool True), (''null'', PyBool False)] =
     Inr \<lparr>fld_verbose_name = PyStr ''internal identifier'',
          fld_max_length = PyInt 64, fld_unique = PyBool True,
          fld_blank = PyBool True, fld_null = PyBool False,
          fld_default = PyObject ''NOT_PROVIDED'',
          fld_editable = PyBool False,
          fld_help_text = PyStr ''Do not change this value if you are not sure what you are doing.'',
          fld_max_digits = PyNone, fld_decimal_places = PyNone,
          fld_validators = [MaxLengthValidator (PyInt 64), IdentifierValidator]\<rparr>"
  by (simp add: InternalIdentifierField_init_def CharField_init_def Field_init_def Let_def
      setdefault_def get_kw_def field_keywords_def truthy_def py_or_def)

text \<open>
  The field constructed with \<open>unique=True\<close> alone has \<open>null\<close> set and prepares the
  empty string and \<open>None\<close> as \<open>None\<close>; the integer 0 is prepared as its string.
\<close>

theorem get_prep_value_null_witness:
  "case InternalIdentifierField_init [(''unique'', PyBool True)] of
     Inl err \<Rightarrow> False
   | Inr self \<Rightarrow>
       truthy (fld_null self)
     \<and> get_prep_value (\<lambda>v. ''0'') self (PyStr []) = PyNone
     \<and> get_prep_value (\<lambda>v. ''0'') self PyNone = PyNone
     \<and> get_prep_value (\<lambda>v. ''0'') self (PyInt 0) = PyStr ''0''"
proof -
  let ?kw = "[(''unique'', PyBool True)]"
  obtain self where self: "InternalIdentifierField_init ?kw = Inr self"
    using identifier_field_example by blast
  have n: "truthy (fld_null self)"
    using get_prep_value_null[of self "\<lambda>v. ''0''" "PyInt 0" ?kw] self
    by (simp add: get_kw_def truthy_def)
  have "get_prep_value (\<lambda>v. ''0'') self (PyStr []) = PyNone
     \<and> get_prep_value (\<lambda>v. ''0'') self PyNone = PyNone"
    using get_prep_value_null[of self "\<lambda>v. ''0''" "PyInt 0" ?kw] n by blast
  moreover have "get_prep_value (\<lambda>v. ''0'') self (PyInt 0) = PyStr ''0''"
    using n by (simp add: get_prep_value_def CharField_get_prep_value_def truthy_def)
  ultimately show ?thesis using self n by simp
qed

text \<open>
  Claim C4 as stated fails: the field constructed with
  \<open>unique=True, blank=True, null=False\<close> permits blank values and prepares the empty
  string as the empty string.
\<close>

theorem get_prep_value_blank_not_null:
  "case InternalIdentifierField_init
          [(''unique'', PyBool True), (''blank'', PyBool True), (''null'', PyBool False)] of
     Inl err \<Rightarrow> False
   | Inr self \<Rightarrow>
       truthy (fld_blank self) \<and> get_prep_value (\<lambda>v. ''0'') self (PyStr []) = PyStr []"
  by (simp add: identifier_field_not_null_example get_prep_value_def CharField_get_prep_value_def
      truthy_def)

text \<open>
  The field constructed with \<open>unique=True\<close> alone, over a framework \<open>deconstruct\<close> that
  reports \<open>max_length\<close>, \<open>verbose_name\<close> and \<open>null=False\<close>.
\<close>

theorem deconstruct_kwargs_witness:
  "case InternalIdentifierField_init [(''unique'', PyBool True)] of
     Inl err \<Rightarrow> False
   | Inr self \<Rightarrow>
       (case deconstruct (\<lambda>f. (''code'', ''oscar.models.fields.InternalIdentifierField'', [],
                                [(''max_length'', fld_max_length f), (''verbose_name'', fld_verbose_name f),
                                 (''null'', PyBool False)])) self of
          (name, path, args, kwargs) \<Rightarrow>
             map_of kwargs ''null'' = Some (PyBool True)
           \<and> map_of kwargs ''unique'' = Some (PyBool True)
           \<and> map_of kwargs ''blank'' = Some (PyBool True)
           \<and> map_of kwargs ''verbose_name'' = None
           \<and> map_of kwargs ''help_text'' = None
           \<and> map_of kwargs ''max_length'' = Some (PyInt 64))"
proof -
  let ?kw = "[(''unique'', PyBool True)]"
  let ?sup = "\<lambda>f. (''code'', ''oscar.models.fields.InternalIdentifierField'', [] :: pyvalue list,
                                [(''max_length'', fld_max_length f), (''verbose_name'', fld_verbose_name f),
                                 (''null'', PyBool False)])"
  obtain self where self: "InternalIdentifierField_init ?kw = Inr self"
    and attrs: "fld_null self = PyBool True" "fld_unique self = PyBool True"
               "fld_blank self = PyBool True" "fld_max_length self = PyInt 64"
    using identifier_field_example by simp
  have m: "map_of (snd (snd (snd (deconstruct ?sup self)))) ''max_length'' = Some (PyInt 64)"
    by (simp add: deconstruct_def pop_def Let_def update_conv' delete_conv' attrs)
  show ?thesis
    using deconstruct_kwargs[OF self, of ?sup] m
    by (simp add: self attrs split: prod.splits)
qed
section \<open>Properties of the form field and of the decimal fields\<close>

lemma digit_char_values:
  "digit_char 0 = CHR ''0''" "digit_char 1 = CHR ''1''" "digit_char 2 = CHR ''2''"
  "digit_char 3 = CHR ''3''" "digit_char 4 = CHR ''4''" "digit_char 5 = CHR ''5''"
  "digit_char 6 = CHR ''6''" "digit_char 7 = CHR ''7''" "digit_char 8 = CHR ''8''"
  "digit_char 9 = CHR ''9''" "digit_char (Suc 0) = CHR ''1''"
  by code_simp+

lemma replicate_values:
  "replicate 1 x = [x]" "replicate 2 x = [x, x]" "replicate 3 x = [x, x, x]"
  "replicate 4 x = [x, x, x, x]"
  by (simp_all add: eval_nat_numeral)

lemma step_for_values:
  "step_for (Some 0) = Inr ''1''"
  "step_for (Some 1) = Inr ''0.1''"
  "step_for (Some 2) = Inr ''0.01''"
  "step_for (Some 3) = Inr ''0.001''"
  "step_for (Some 4) = Inr ''0.0001''"
  "step_for (Some 5) = Inr ''0.00001''"
  by (simp_all add: step_for_def MAX_DECIMAL_PLACES_FOR_STEP_def truediv_def Let_def digits_of.simps
      ctx_prec_def strip_zeros.simps dec_fix_def Etop_def Etiny_def Emax_def Emin_def
      format_f_def format_sign_def digit_string_def digit_char_values replicate_values)

lemma spec_step_fraction_values:
  "spec_step_fraction 0 = ''1''"
  "spec_step_fraction 1 = ''0.1''"
  "spec_step_fraction 2 = ''0.01''"
  "spec_step_fraction 3 = ''0.001''"
  "spec_step_fraction 4 = ''0.0001''"
  "spec_step_fraction 5 = ''0.00001''"
  by (simp_all add: spec_step_fraction_def eval_nat_numeral)

lemma step_for_nonneg:
  assumes "0 \<le> n"
  shows "step_for (Some n) = Inr (if n \<le> 5 then spec_step_fraction (nat n) else ''any'')"
proof (cases "n \<le> 5")
  case True
  with assms have "n = 0 \<or> n = 1 \<or> n = 2 \<or> n = 3 \<or> n = 4 \<or> n = 5" by arith
  then show ?thesis
    using True
    by (elim disjE) (simp_all add: step_for_values spec_step_fraction_def eval_nat_numeral)
next
  case False
  then show ?thesis by (simp add: step_for_def MAX_DECIMAL_PLACES_FOR_STEP_def)
qed

lemma step_for_range:
  assumes "step_for places = Inr s"
  shows "s \<in> set [''1'', ''0.1'', ''0.01'', ''0.001'', ''0.0001'', ''0.00001'', ''any'']"
proof (cases places)
  case None
  with assms show ?thesis by (simp add: step_for_def)
next
  case (Some n)
  show ?thesis
  proof (cases "0 \<le> n")
    case True
    then have "n = 0 \<or> n = 1 \<or> n = 2 \<or> n = 3 \<or> n = 4 \<or> n = 5 \<or> 5 < n" by arith
    then show ?thesis
      using assms Some step_for_nonneg[OF True]
      by (elim disjE) (simp_all add: spec_step_fraction_def eval_nat_numeral)
  next
    case False
    with assms Some show ?thesis by (simp add: step_for_def MAX_DECIMAL_PLACES_FOR_STEP_def)
  qed
qed

text \<open>
  Claim C6, as amended. On a number input without a \<open>step\<close> attribute, a form field
  whose \<open>decimal_places\<close> is a non-negative integer \<open>n\<close> sets the widget's \<open>step\<close> to
  the fraction \<open>1/10^n\<close> in fixed-point notation when \<open>n \<le> 5\<close> and to \<open>any\<close>
  when \<open>n > 5\<close>, and returns what the framework returns for the updated widget. Whenever
  \<open>widget_attrs\<close> returns, the step it has set is one of these seven strings.
\<close>

theorem widget_attrs_step:
  assumes "is_NumberInput w" and "map_of (attrs w) ''step'' = None"
  shows "(decimal_places self = Some n \<and> 0 \<le> n \<longrightarrow>
            widget_attrs super_widget_attrs self w =
              Inr (w\<lparr>attrs := attrs w @ [(''step'', PyStr (if n \<le> 5 then spec_step_fraction (nat n) else ''any''))]\<rparr>,
                   super_widget_attrs
                     (w\<lparr>attrs := attrs w @ [(''step'', PyStr (if n \<le> 5 then spec_step_fraction (nat n) else ''any''))]\<rparr>)))
       \<and> (widget_attrs super_widget_attrs self w = Inr (w', r) \<longrightarrow>
            (\<exists>s. map_of (attrs w') ''step'' = Some (PyStr s)
                \<and> s \<in> set [''1'', ''0.1'', ''0.01'', ''0.001'', ''0.0001'', ''0.00001'', ''any'']))"
proof -
  have 1: "widget_attrs super_widget_attrs self w =
              Inr (w\<lparr>attrs := attrs w @ [(''step'', PyStr (if n \<le> 5 then spec_step_fraction (nat n) else ''any''))]\<rparr>,
                   super_widget_attrs
                     (w\<lparr>attrs := attrs w @ [(''step'', PyStr (if n \<le> 5 then spec_step_fraction (nat n) else ''any''))]\<rparr>))"
    if "decimal_places self = Some n \<and> 0 \<le> n"
    using that assms step_for_nonneg[of n]
    by (simp add: widget_attrs_def setdefault_def Let_def)
  have 2: "\<exists>s. map_of (attrs w') ''step'' = Some (PyStr s)
                \<and> s \<in> set [''1'', ''0.1'', ''0.01'', ''0.001'', ''0.0001'', ''0.00001'', ''any'']"
    if res: "widget_attrs super_widget_attrs self w = Inr (w', r)"
  proof -
    obtain s where s: "step_for (decimal_places self) = Inr s"
      and w': "w' = w\<lparr>attrs := setdefault (attrs w) ''step'' (PyStr s)\<rparr>"
      using res assms unfolding widget_attrs_def Let_def
      by (cases "step_for (decimal_places self)") auto
    have "map_of (attrs w') ''step'' = Some (PyStr s)"
      using assms(2) by (simp add: w' setdefault_def map_add_def)
    with step_for_range[OF s] show ?thesis by blast
  qed
  from 1 2 show ?thesis by blast
qed

text \<open>
  With two decimal places the step is \<open>0.01\<close>.
\<close>

theorem widget_attrs_step_witness:
  "widget_attrs (\<lambda>w. []) \<lparr>decimal_places = Some 2\<rparr>
       \<lparr>is_NumberInput = True, attrs = [(''min'', PyInt 0)]\<rparr>
     = Inr (\<lparr>is_NumberInput = True, attrs = [(''min'', PyInt 0), (''step'', PyStr ''0.01'')]\<rparr>, [])"
proof -
  have a: "is_NumberInput \<lparr>is_NumberInput = True, attrs = [(''min'', PyInt 0)]\<rparr>" by simp
  have b: "map_of (attrs \<lparr>is_NumberInput = True, attrs = [(''min'', PyInt 0)]\<rparr>) ''step'' = None" by simp
  show ?thesis
    using widget_attrs_step[OF a b, of "\<lparr>decimal_places = Some 2\<rparr>" 2 "\<lambda>w. []"]
    by (simp add: spec_step_fraction_values)
qed

text \<open>
  Claim C6 as stated fails: \<open>decimal_places = -1\<close> is at most 5, and \<open>widget_attrs\<close>
  raises \<open>TypeError\<close> instead of setting a step.
\<close>

theorem widget_attrs_negative_places:
  "widget_attrs (\<lambda>w. []) \<lparr>decimal_places = Some (- 1)\<rparr> \<lparr>is_NumberInput = True, attrs = []\<rparr>
     = Inl TypeError"
  by (simp add: widget_attrs_def step_for_def MAX_DECIMAL_PLACES_FOR_STEP_def)

lemma DecimalField_init_attrs:
  assumes "DecimalField_init kw = Inr f"
  shows "fld_max_digits f = get_kw kw ''max_digits'' PyNone"
    and "fld_decimal_places f = get_kw kw ''decimal_places'' PyNone"
    and "fld_default f = get_kw kw ''default'' (PyObject ''NOT_PROVIDED'')"
proof -
  obtain g where g: "Field_init (pop (pop kw ''max_digits'') ''decimal_places'') = Inr g"
    and f: "f = g\<lparr>fld_max_digits := get_kw kw ''max_digits'' PyNone,
                    fld_decimal_places := get_kw kw ''decimal_places'' PyNone\<rparr>"
    using assms unfolding DecimalField_init_def
    by (cases "Field_init (pop (pop kw ''max_digits'') ''decimal_places'')") auto
  show "fld_max_digits f = get_kw kw ''max_digits'' PyNone" by (simp add: f)
  show "fld_decimal_places f = get_kw kw ''decimal_places'' PyNone" by (simp add: f)
  show "fld_default f = get_kw kw ''default'' (PyObject ''NOT_PROVIDED'')"
    using Field_init_attrs(4)[OF g] by (simp add: f get_kw_def pop_def delete_conv')
qed

lemma get_kw_absent: "map_of kw k = None \<Longrightarrow> get_kw kw k d = d"
  by (simp add: get_kw_def)

text \<open>
  Claim C7. A constructed \<open>MoneyValueField\<close> has 9 decimal places unless the caller gave
  \<open>decimal_places\<close> and 36 digits unless the caller gave \<open>max_digits\<close>; a constructed
  \<open>QuantityField\<close> has the same and the default 0 unless the caller gave \<open>default\<close>.
\<close>

theorem money_quantity_defaults:
  "(MoneyValueField_init kw = Inr f \<longrightarrow>
      (map_of kw ''decimal_places'' = None \<longrightarrow> fld_decimal_places f = PyInt 9)
    \<and> (map_of kw ''max_digits'' = None \<longrightarrow> fld_max_digits f = PyInt 36))
   \<and> (QuantityField_init kw = Inr g \<longrightarrow>
      (map_of kw ''decimal_places'' = None \<longrightarrow> fld_decimal_places g = PyInt 9)
    \<and> (map_of kw ''max_digits'' = None \<longrightarrow> fld_max_digits g = PyInt 36)
    \<and> (map_of kw ''default'' = None \<longrightarrow> fld_default g = PyInt 0))"
proof -
  define kw1 where "kw1 = setdefault kw ''decimal_places'' (PyInt 9)"
  define kw2 where "kw2 = setdefault kw1 ''max_digits'' (PyInt 36)"
  define kw3 where "kw3 = setdefault kw2 ''default'' (PyInt 0)"
  have dp2: "get_kw kw2 ''decimal_places'' PyNone = get_kw kw ''decimal_places'' (PyInt 9)"
    by (simp add: kw2_def kw1_def get_kw_setdefault)
  have md2: "get_kw kw2 ''max_digits'' PyNone = get_kw kw ''max_digits'' (PyInt 36)"
    by (simp add: kw2_def kw1_def get_kw_setdefault)
  have dp3: "get_kw kw3 ''decimal_places'' PyNone = get_kw kw ''decimal_places'' (PyInt 9)"
    using dp2 by (simp add: kw3_def get_kw_setdefault)
  have md3: "get_kw kw3 ''max_digits'' PyNone = get_kw kw ''max_digits'' (PyInt 36)"
    using md2 by (simp add: kw3_def get_kw_setdefault)
  have df3: "get_kw kw3 ''default'' (PyObject ''NOT_PROVIDED'') = get_kw kw ''default'' (PyInt 0)"
    by (simp add: kw3_def kw2_def kw1_def get_kw_setdefault)
  have m: "(map_of kw ''decimal_places'' = None \<longrightarrow> fld_decimal_places f = PyInt 9)
    \<and> (map_of kw ''max_digits'' = None \<longrightarrow> fld_max_digits f = PyInt 36)"
    if "MoneyValueField_init kw = Inr f"
  proof -
    have i: "DecimalField_init kw2 = Inr f"
      using that
      by (simp add: MoneyValueField_init_def Let_def kw2_def kw1_def
          MONEY_FIELD_DECIMAL_PLACES_def FORMATTED_DECIMAL_FIELD_MAX_DIGITS_def)
    show ?thesis
      using DecimalField_init_attrs(1,2)[OF i] by (simp add: dp2 md2 get_kw_absent)
  qed
  have q: "(map_of kw ''decimal_places'' = None \<longrightarrow> fld_decimal_places g = PyInt 9)
    \<and> (map_of kw ''max_digits'' = None \<longrightarrow> fld_max_digits g = PyInt 36)
    \<and> (map_of kw ''default'' = None \<longrightarrow> fld_default g = PyInt 0)"
    if "QuantityField_init kw = Inr g"
  proof -
    have i: "DecimalField_init kw3 = Inr g"
      using that
      by (simp add: QuantityField_init_def Let_def kw3_def kw2_def kw1_def
          FORMATTED_DECIMAL_FIELD_DECIMAL_PLACES_def FORMATTED_DECIMAL_FIELD_MAX_DIGITS_def)
    show ?thesis
      using DecimalField_init_attrs[OF i] by (simp add: dp3 md3 df3 get_kw_absent)
  qed
  from m q show ?thesis by blast
qed

lemma money_field_example:
  "MoneyValueField_init [(''blank'', PyBool True)] =
     Inr \<lparr>fld_verbose_name = PyNone, fld_max_length = PyNone,
        fld_unique = PyBool False, fld_blank = PyBool True,
        fld_null = PyBool False, fld_default = PyObject ''NOT_PROVIDED'',
        fld_editable = PyBool True, fld_help_text = PyStr [],
        fld_max_digits = PyInt 36, fld_decimal_places = PyInt 9,
        fld_validators = []\<rparr>"
  by (simp add: MoneyValueField_init_def DecimalField_init_def Field_init_def Let_def
      setdefault_def get_kw_def field_keywords_def pop_def py_or_def truthy_def
      MONEY_FIELD_DECIMAL_PLACES_def FORMATTED_DECIMAL_FIELD_MAX_DIGITS_def)

lemma quantity_field_example:
  "QuantityField_init [(''blank'', PyBool True)] =
     Inr \<lparr>fld_verbose_name = PyNone, fld_max_length = PyNone,
        fld_unique = PyBool False, fld_blank = PyBool True,
        fld_null = PyBool False, fld_default = PyInt 0,
        fld_editable = PyBool True, fld_help_text = PyStr [],
        fld_max_digits = PyInt 36, fld_decimal_places = PyInt 9,
        fld_validators = []\<rparr>"
  by (simp add: QuantityField_init_def DecimalField_init_def Field_init_def Let_def
      setdefault_def get_kw_def field_keywords_def pop_def py_or_def truthy_def
      FORMATTED_DECIMAL_FIELD_DECIMAL_PLACES_def FORMATTED_DECIMAL_FIELD_MAX_DIGITS_def)

text \<open>
  Both fields constructed with \<open>blank=True\<close> alone.
\<close>

theorem money_quantity_defaults_witness:
  "(case MoneyValueField_init [(''blank'', PyBool True)] of
      Inl err \<Rightarrow> False
    | Inr f \<Rightarrow> fld_decimal_places f = PyInt 9 \<and> fld_max_digits f = PyInt 36)
   \<and> (case QuantityField_init [(''blank'', PyBool True)] of
      Inl err \<Rightarrow> False
    | Inr g \<Rightarrow> fld_decimal_places g = PyInt 9 \<and> fld_max_digits g = PyInt 36 \<and> fld_default g = PyInt 0)"
proof -
  let ?kw = "[(''blank'', PyBool True)]"
  obtain f where f: "MoneyValueField_init ?kw = Inr f" using money_field_example by blast
  obtain g where g: "QuantityField_init ?kw = Inr g" using quantity_field_example by blast
  show ?thesis
    using money_quantity_defaults[of ?kw f g] f g by simp
qed

text \<open>\<open>Decimal('12.50')\<close> is formatted as \<open>'12.5'\<close>.\<close>

lemma format_decimal_price_example:
  "format_decimal (PyDecimal (Finite False 1250 (- 2))) 100 100 = Inr ''12.5''"
proof -
  have n: "normalize_dec (Finite False 1250 (- 2)) = Inr (Finite False 125 (- 1))"
    by (simp add: normalize_dec_def dec_fix_def Let_def ctx_prec_def Etop_def Etiny_def Emax_def
        Emin_def digits_of.simps strip_zeros.simps)
  have f: "format_f (Finite False 125 (- 1)) = ''12.5''" by code_simp
  show ?thesis
    by (simp add: format_decimal_def n as_tuple_def f digits_of.simps)
qed

text \<open>
  Claim C8. \<open>value_from_object\<close> reads the value with the framework's method. When that
  value is a number, the result is what \<open>format_decimal\<close>, with its default limits,
  returns on \<open>Decimal(str(value))\<close>: the formatted string, or the error that
  \<open>Decimal\<close> or \<open>format_decimal\<close> raises. When the value is not a number, the result
  is \<open>None\<close>; \<open>None\<close> and strings are not numbers. An error of the framework's method
  is raised unchanged. Hence a result other than \<open>None\<close> is the formatted Decimal of a
  number.
\<close>

theorem value_from_object_not_number:
  "(super_value_from_object obj = Inr v \<and> isinstance_Number v \<longrightarrow>
       value_from_object super_value_from_object str Decimal obj =
         (case Decimal (str v) of
            Inl err \<Rightarrow> Inl err
          | Inr d \<Rightarrow>
              (case format_decimal (PyDecimal d) 100 100 of
                 Inl err \<Rightarrow> Inl err
               | Inr s \<Rightarrow> Inr (PyStr s))))
   \<and> (super_value_from_object obj = Inr v \<and> \<not> isinstance_Number v \<longrightarrow>
       value_from_object super_value_from_object str Decimal obj = Inr PyNone)
   \<and> (super_value_from_object obj = Inl e \<longrightarrow>
       value_from_object super_value_from_object str Decimal obj = Inl e)
   \<and> \<not> isinstance_Number PyNone \<and> \<not> isinstance_Number (PyStr txt)
   \<and> (value_from_object super_value_from_object str Decimal obj = Inr r \<and> r \<noteq> PyNone \<longrightarrow>
        (\<exists>v d s. super_value_from_object obj = Inr v \<and> isinstance_Number v
           \<and> Decimal (str v) = Inr d
           \<and> format_decimal (PyDecimal d) 100 100 = Inr s \<and> r = PyStr s))"
  by (auto simp add: value_from_object_def isinstance_Number_def split: sum.splits if_splits)

text \<open>
  An object whose \<open>price\<close> is \<open>Decimal('12.50')\<close> gives \<open>'12.5'\<close>; one whose \<open>price\<close> is
  the string \<open>'12.50'\<close> and one whose \<open>price\<close> is \<open>None\<close> give \<open>None\<close>; an object whose
  attribute cannot be read gives the error of the read.
\<close>

theorem value_from_object_not_number_witness:
  "value_from_object (\<lambda>obj. case map_of obj ''price'' of None \<Rightarrow> Inl AttributeError | Some v \<Rightarrow> Inr v)
      (\<lambda>v. ''12.50'') (\<lambda>s. Inr (Finite False 1250 (- 2)))
      [(''price'', PyDecimal (Finite False 1250 (- 2)))] = Inr (PyStr ''12.5'')
   \<and> value_from_object (\<lambda>obj. case map_of obj ''price'' of None \<Rightarrow> Inl AttributeError | Some v \<Rightarrow> Inr v)
      (\<lambda>v. ''12.50'') (\<lambda>s. Inr (Finite False 1250 (- 2)))
      [(''price'', PyStr ''12.50'')] = Inr PyNone
   \<and> value_from_object (\<lambda>obj. case map_of obj ''price'' of None \<Rightarrow> Inl AttributeError | Some v \<Rightarrow> Inr v)
      (\<lambda>v. ''12.50'') (\<lambda>s. Inr (Finite False 1250 (- 2)))
      [(''price'', PyNone)] = Inr PyNone
   \<and> value_from_object (\<lambda>obj. case map_of obj ''price'' of None \<Rightarrow> Inl AttributeError | Some v \<Rightarrow> Inr v)
      (\<lambda>v. ''12.50'') (\<lambda>s. Inr (Finite False 1250 (- 2)))
      [(''title'', PyStr ''x'')] = Inl AttributeError"
  using value_from_object_not_number[of
          "\<lambda>obj. case map_of obj ''price'' of None \<Rightarrow> Inl AttributeError | Some v \<Rightarrow> Inr v"
          "[(''price'', PyDecimal (Finite False 1250 (- 2)))]" "PyDecimal (Finite False 1250 (- 2))"
          "\<lambda>v. ''12.50''" "\<lambda>s. Inr (Finite False 1250 (- 2))" AttributeError "''x''" "PyStr ''12.5''"]
        value_from_object_not_number[of
          "\<lambda>obj. case map_of obj ''price'' of None \<Rightarrow> Inl AttributeError | Some v \<Rightarrow> Inr v"
          "[(''price'', PyStr ''12.50'')]" "PyStr ''12.50''"
          "\<lambda>v. ''12.50''" "\<lambda>s. Inr (Finite False 1250 (- 2))" AttributeError "''x''" PyNone]
        value_from_object_not_number[of
          "\<lambda>obj. case map_of obj ''price'' of None \<Rightarrow> Inl AttributeError | Some v \<Rightarrow> Inr v"
          "[(''price'', PyNone)]" "PyNone"
          "\<lambda>v. ''12.50''" "\<lambda>s. Inr (Finite False 1250 (- 2))" AttributeError "''x''" PyNone]
        value_from_object_not_number[of
          "\<lambda>obj. case map_of obj ''price'' of None \<Rightarrow> Inl AttributeError | Some v \<Rightarrow> Inr v"
          "[(''title'', PyStr ''x'')]" "PyNone"
          "\<lambda>v. ''12.50''" "\<lambda>s. Inr (Finite False 1250 (- 2))" AttributeError "''x''" PyNone]
  by (simp add: isinstance_Number_def format_decimal_price_example)

end
